theory Spec2Isabelle
  imports Main
begin

section \<open>Data model\<close>

text \<open>
  The development embeds the two session modules of the repository,
  \<^verbatim>\<open>src/context/RoomContext.tsx\<close> (the room provider) and
  \<^verbatim>\<open>src/context/ChatContext.tsx\<close> (the chat provider).
  Both are React components: their hook state, the global signaling socket \<^verbatim>\<open>ws\<close>,
  the browser console and the PeerJS objects they create are fields of one record
  \<open>world\<close>, and every handler and effect is a function from worlds to worlds.
\<close>

subsection \<open>Media objects\<close>

text \<open>\<^verbatim>\<open>MediaStreamTrack.kind\<close> is either \<^verbatim>\<open>"audio"\<close> or \<^verbatim>\<open>"video"\<close>.\<close>

datatype track_kind = Audio | Video

record media_track =
  track_id :: nat
  kind :: track_kind
  enabled :: bool

record media_stream =
  stream_id :: nat
  tracks :: "media_track list"

definition getTracks :: "media_stream \<Rightarrow> media_track list" where
  "getTracks st = tracks st"

definition getVideoTracks :: "media_stream \<Rightarrow> media_track list" where
  "getVideoTracks st = filter (\<lambda>t. kind t = Video) (tracks st)"

definition getAudioTracks :: "media_stream \<Rightarrow> media_track list" where
  "getAudioTracks st = filter (\<lambda>t. kind t = Audio) (tracks st)"

datatype js_error = TypeError | NotAllowedError | InvalidStateError

datatype console_entry = ConsoleLog string | ConsoleError js_error

text \<open>
  An \<^verbatim>\<open>RTCRtpSender\<close>: the track it sends, if any, and whether its transceiver is
  stopped (then \<^verbatim>\<open>replaceTrack\<close> rejects with \<^verbatim>\<open>InvalidStateError\<close>).
\<close>

record rtp_sender =
  sender_track :: "media_track option"
  stopped :: bool

text \<open>A PeerJS \<^verbatim>\<open>MediaConnection\<close>, reduced to \<^verbatim>\<open>peerConnection.getSenders()\<close>.\<close>

record media_connection =
  senders :: "rtp_sender list"

text \<open>
  The closure passed to \<^verbatim>\<open>me.on("call", ...)\<close> captures the local stream of the render
  that ran the effect; it is represented by the identity of that stream.
\<close>

datatype call_handler = CallHandler nat

text \<open>
  A PeerJS \<^verbatim>\<open>Peer\<close> object. \<open>connections\<close> is \<^verbatim>\<open>me.connections\<close> (one list of
  media connections per remote id, maintained by the library and only read by the
  provider), \<open>call_handlers\<close> the listeners attached with \<^verbatim>\<open>on("call", ...)\<close>, and
  \<open>disconnected\<close> records that \<^verbatim>\<open>disconnect()\<close> was called on the object.
  The id is the one given to the constructor; a handle whose id PeerJS has not set or
  has unset again is outside the model.
\<close>

record peer_obj =
  peer_id :: string
  connections :: "(string \<times> media_connection list) list"
  call_handlers :: "call_handler list"
  disconnected :: bool

definition new_Peer :: "string \<Rightarrow> peer_obj" where
  "new_Peer uid = \<lparr>peer_id = uid, connections = [], call_handlers = [], disconnected = False\<rparr>"

subsection \<open>The peer registry reducer\<close>

record peer_entry =
  displayName :: "string option"
  remoteStream :: "nat option"

type_synonym peer_state = "string \<rightharpoonup> peer_entry"

datatype peer_action =
    ADD_PEER_STREAM string nat
  | ADD_PEER_NAME string string
  | REMOVE_PEER_STREAM string
  | ADD_ALL_PEERS peer_state

text \<open>
  Modelled from the spec: \<^verbatim>\<open>peersReducer\<close> and its action creators live in
  \<^verbatim>\<open>src/reducers\<close>, which is not part of the available sources. The definition follows
  the contract of the Peer Registry: \<^verbatim>\<open>upsertName\<close> inserts or updates the display name
  and preserves an existing stream, \<^verbatim>\<open>upsertStream\<close> inserts or updates the stream and
  preserves an existing name, \<^verbatim>\<open>remove\<close> deletes the entry entirely (a no-op on an
  absent id), \<^verbatim>\<open>replaceAll\<close> replaces the full membership; an unknown id in an update
  creates an entry with only the updated field populated.
\<close>

fun peersReducer :: "peer_state \<Rightarrow> peer_action \<Rightarrow> peer_state" where
  "peersReducer m (ADD_PEER_STREAM p st) =
     m(p \<mapsto> (case m p of
                None \<Rightarrow> \<lparr>displayName = None, remoteStream = Some st\<rparr>
              | Some e \<Rightarrow> e\<lparr>remoteStream := Some st\<rparr>))"
| "peersReducer m (ADD_PEER_NAME p n) =
     m(p \<mapsto> (case m p of
                None \<Rightarrow> \<lparr>displayName = Some n, remoteStream = None\<rparr>
              | Some e \<Rightarrow> e\<lparr>displayName := Some n\<rparr>))"
| "peersReducer m (REMOVE_PEER_STREAM p) = m(p := None)"
| "peersReducer m (ADD_ALL_PEERS ps) = ps"

definition addPeerStreamAction :: "string \<Rightarrow> nat \<Rightarrow> peer_action" where
  "addPeerStreamAction p st = ADD_PEER_STREAM p st"

definition addPeerNameAction :: "string \<Rightarrow> string \<Rightarrow> peer_action" where
  "addPeerNameAction p n = ADD_PEER_NAME p n"

definition removePeerStreamAction :: "string \<Rightarrow> peer_action" where
  "removePeerStreamAction p = REMOVE_PEER_STREAM p"

definition addAllPeersAction :: "peer_state \<Rightarrow> peer_action" where
  "addAllPeersAction ps = ADD_ALL_PEERS ps"

subsection \<open>The chat reducer\<close>

record IMessage =
  content :: string
  timestamp :: int
  author :: string

record chat_state =
  messages :: "IMessage list"
  isChatOpen :: bool

datatype chat_action = ADD_MESSAGE IMessage

text \<open>
  Modelled from the spec: \<^verbatim>\<open>chatReducer\<close> and \<^verbatim>\<open>addMessageAction\<close> live in
  \<^verbatim>\<open>src/reducers\<close>, which is not part of the available sources. The chat state holds an
  append-only ordered sequence of messages; adding a message appends it at the end.
  Only the transition used by \<^verbatim>\<open>sendMessage\<close> and \<^verbatim>\<open>addMessage\<close> is modelled.
\<close>

fun chatReducer :: "chat_state \<Rightarrow> chat_action \<Rightarrow> chat_state" where
  "chatReducer c (ADD_MESSAGE m) = c\<lparr>messages := messages c @ [m]\<rparr>"

definition addMessageAction :: "IMessage \<Rightarrow> chat_action" where
  "addMessageAction m = ADD_MESSAGE m"

subsection \<open>The signaling socket\<close>

text \<open>
  The socket \<^verbatim>\<open>ws\<close> is an event emitter: \<^verbatim>\<open>on(name, h)\<close> appends a listener,
  \<^verbatim>\<open>off(name)\<close> without a listener argument removes every listener of that name, and
  an incoming event runs the listeners of its name in registration order.
  The listeners of the room provider are closures; \<open>H_userJoined\<close> carries what its
  closure captured: the peer handle \<^verbatim>\<open>me\<close>, the local stream and the local user name.
\<close>

datatype ws_handler =
    H_enterRoom
  | H_getUsers
  | H_removePeer
  | H_startedSharing
  | H_stoppedSharing
  | H_nameChanged
  | H_userJoined nat nat string

datatype ws_event =
    RoomCreated string
  | GetUsers peer_state
  | UserDisconnected string
  | UserStartedSharing string
  | UserStoppedSharing
  | NameChanged string string
  | UserJoined string string

fun event_name :: "ws_event \<Rightarrow> string" where
  "event_name (RoomCreated r) = ''room-created''"
| "event_name (GetUsers ps) = ''get-users''"
| "event_name (UserDisconnected p) = ''user-disconnected''"
| "event_name (UserStartedSharing p) = ''user-started-sharing''"
| "event_name UserStoppedSharing = ''user-stopped-sharing''"
| "event_name (NameChanged p n) = ''name-changed''"
| "event_name (UserJoined p n) = ''user-joined''"

datatype ws_out =
    EmitChangeName string string string
  | EmitStartSharing string string
  | EmitStopSharing
  | EmitSendMessage string IMessage

text \<open>An outbound call \<^verbatim>\<open>me.call(peerId, stream, {metadata: {userName}})\<close>.\<close>

record outbound_call =
  call_from :: nat
  call_to :: string
  call_stream :: nat
  call_metadata :: string

text \<open>The cleanup closure of the identity effect captures \<^verbatim>\<open>me\<close> of its render.\<close>

datatype identity_cleanup = IdentityCleanup "nat option"

subsection \<open>The world\<close>

text \<open>
  Peer objects are mutable and referenced from several closures, so they live in a
  store \<open>peer_heap\<close> addressed by allocation number; \<open>me\<close> holds such an address.
\<close>

record world =
  userName :: string
  userId :: string
  me :: "nat option"
  stream :: "media_stream option"
  screenStream :: "media_stream option"
  peers :: peer_state
  screenSharingId :: string
  roomId :: string
  isCameraOn :: bool
  isAudioOn :: bool
  chat :: chat_state
  ws_listeners :: "(string \<times> ws_handler) list"
  ws_emitted :: "ws_out list"
  console :: "console_entry list"
  unhandled :: "js_error list"
  router_pushes :: "string list"
  peer_heap :: "nat \<Rightarrow> peer_obj"
  next_peer :: nat
  calls :: "outbound_call list"
  answers :: "(string \<times> nat) list"
  identity_teardown :: "identity_cleanup option"
  media_teardown :: bool

text \<open>The initial values of the hooks, for a user of the given id and name.\<close>

definition initial_world :: "string \<Rightarrow> string \<Rightarrow> world" where
  "initial_world uid uname =
     \<lparr>userName = uname, userId = uid, me = None, stream = None, screenStream = None,
      peers = Map.empty, screenSharingId = '''', roomId = '''',
      isCameraOn = True, isAudioOn = True,
      chat = \<lparr>messages = [], isChatOpen = False\<rparr>,
      ws_listeners = [], ws_emitted = [], console = [], unhandled = [],
      router_pushes = [], peer_heap = (\<lambda>_. new_Peer ''''), next_peer = 0,
      calls = [], answers = [], identity_teardown = None, media_teardown = False\<rparr>"

definition ws_on :: "string \<Rightarrow> ws_handler \<Rightarrow> world \<Rightarrow> world" where
  "ws_on name h s = s\<lparr>ws_listeners := ws_listeners s @ [(name, h)]\<rparr>"

definition ws_off :: "string \<Rightarrow> world \<Rightarrow> world" where
  "ws_off name s = s\<lparr>ws_listeners := filter (\<lambda>l. fst l \<noteq> name) (ws_listeners s)\<rparr>"

definition ws_emit :: "ws_out \<Rightarrow> world \<Rightarrow> world" where
  "ws_emit ev s = s\<lparr>ws_emitted := ws_emitted s @ [ev]\<rparr>"

definition dispatch :: "peer_action \<Rightarrow> world \<Rightarrow> world" where
  "dispatch a s = s\<lparr>peers := peersReducer (peers s) a\<rparr>"

definition setScreenSharingId :: "string \<Rightarrow> world \<Rightarrow> world" where
  "setScreenSharingId p s = s\<lparr>screenSharingId := p\<rparr>"

section \<open>The room provider\<close>

subsection \<open>Signaling handlers\<close>

definition getUsers :: "peer_state \<Rightarrow> world \<Rightarrow> world" where
  "getUsers participants s = dispatch (addAllPeersAction participants) s"

definition removePeer :: "string \<Rightarrow> world \<Rightarrow> world" where
  "removePeer p s = dispatch (removePeerStreamAction p) s"

definition nameChangedHandler :: "string \<Rightarrow> string \<Rightarrow> world \<Rightarrow> world" where
  "nameChangedHandler p n s = dispatch (addPeerNameAction p n) s"

definition enterRoom :: "string \<Rightarrow> world \<Rightarrow> world" where
  "enterRoom r s =
     s\<lparr>console := console s @ [ConsoleLog ''room-created''],
       router_pushes := router_pushes s @ [''/room/'' @ r]\<rparr>"

text \<open>
  The two anonymous listeners of lines 142 and 143:
  \<^verbatim>\<open>(peerId) => setScreenSharingId(peerId)\<close> and \<^verbatim>\<open>() => setScreenSharingId("")\<close>.
\<close>

definition on_user_started_sharing :: "string \<Rightarrow> world \<Rightarrow> world" where
  "on_user_started_sharing p s = setScreenSharingId p s"

definition on_user_stopped_sharing :: "world \<Rightarrow> world" where
  "on_user_stopped_sharing s = setScreenSharingId '''' s"

text \<open>
  The \<^verbatim>\<open>user-joined\<close> listener of lines 170 to 180: it calls the joining peer with the
  captured handle, stream and local user name, and records the peer's name. The
  \<^verbatim>\<open>stream\<close> callback of the call is the transition \<open>on_call_stream\<close> below.
  \<^verbatim>\<open>me.call\<close> is taken to return a connection, as it does on a handle that is neither
  disconnected nor destroyed.
\<close>

definition on_user_joined :: "nat \<Rightarrow> nat \<Rightarrow> string \<Rightarrow> string \<Rightarrow> string \<Rightarrow> world \<Rightarrow> world" where
  "on_user_joined r sid uname p n s =
     dispatch (addPeerNameAction p n)
       (s\<lparr>calls := calls s @
            [\<lparr>call_from = r, call_to = p, call_stream = sid, call_metadata = uname\<rparr>]\<rparr>)"

fun run_handler :: "ws_handler \<Rightarrow> ws_event \<Rightarrow> world \<Rightarrow> world" where
  "run_handler H_enterRoom (RoomCreated r) s = enterRoom r s"
| "run_handler H_getUsers (GetUsers ps) s = getUsers ps s"
| "run_handler H_removePeer (UserDisconnected p) s = removePeer p s"
| "run_handler H_startedSharing (UserStartedSharing p) s = on_user_started_sharing p s"
| "run_handler H_stoppedSharing UserStoppedSharing s = on_user_stopped_sharing s"
| "run_handler H_nameChanged (NameChanged p n) s = nameChangedHandler p n s"
| "run_handler (H_userJoined r sid uname) (UserJoined p n) s = on_user_joined r sid uname p n s"
| "run_handler h e s = s"

text \<open>An event arriving on the socket runs the listeners registered under its name.\<close>

definition listeners_of :: "string \<Rightarrow> world \<Rightarrow> ws_handler list" where
  "listeners_of name s = map snd (filter (\<lambda>l. fst l = name) (ws_listeners s))"

definition ws_receive :: "ws_event \<Rightarrow> world \<Rightarrow> world" where
  "ws_receive e s = foldl (\<lambda>w h. run_handler h e w) s (listeners_of (event_name e) s)"

subsection \<open>Screen sharing\<close>

text \<open>
  \<^verbatim>\<open>getSenders().find((sender) => sender.track?.kind === "video")?.replaceTrack(videoTrack)\<close>:
  the first sender with a video track gets the new track; the result carries the
  rejection of \<^verbatim>\<open>replaceTrack\<close>, if any. When no sender matches, nothing happens.
\<close>

fun replace_first_video :: "media_track \<Rightarrow> rtp_sender list \<Rightarrow> rtp_sender list \<times> js_error option" where
  "replace_first_video v [] = ([], None)"
| "replace_first_video v (x # xs) =
     (if (case sender_track x of None \<Rightarrow> False | Some t \<Rightarrow> kind t = Video)
      then (if stopped x then (x # xs, Some InvalidStateError)
            else (x\<lparr>sender_track := Some v\<rparr> # xs, None))
      else (case replace_first_video v xs of (ys, e) \<Rightarrow> (x # ys, e)))"

text \<open>
  The body of \<^verbatim>\<open>Object.values(me.connections || {}).forEach(...)\<close>. The result is the
  updated connections, the errors logged by \<^verbatim>\<open>.catch((err) => console.error(err))\<close>,
  and the exception that aborted the loop, if any: \<^verbatim>\<open>connection[0].peerConnection\<close>
  throws a \<^verbatim>\<open>TypeError\<close> on an empty connection list.
\<close>

fun switch_connections ::
  "media_stream \<Rightarrow> (string \<times> media_connection list) list \<Rightarrow>
   (string \<times> media_connection list) list \<times> console_entry list \<times> js_error option" where
  "switch_connections newStream [] = ([], [], None)"
| "switch_connections newStream ((p, conns) # rest) =
     (case find (\<lambda>t. kind t = Video) (getTracks newStream) of
        None \<Rightarrow>
          (case switch_connections newStream rest of
             (r, l, e) \<Rightarrow> ((p, conns) # r, l, e))
      | Some videoTrack \<Rightarrow>
          (case conns of
             [] \<Rightarrow> ((p, conns) # rest, [], Some TypeError)
           | c # cs \<Rightarrow>
               (case replace_first_video videoTrack (senders c) of
                  (snds, err) \<Rightarrow>
                    (case switch_connections newStream rest of
                       (r, l, e) \<Rightarrow>
                         ((p, c\<lparr>senders := snds\<rparr> # cs) # r,
                          (case err of None \<Rightarrow> [] | Some x \<Rightarrow> [ConsoleError x]) @ l,
                          e)))))"

text \<open>
  \<^verbatim>\<open>switchStream\<close> returns the new world and the exception it threw, if any. The
  state update \<^verbatim>\<open>setScreenSharingId(me.id || "")\<close> precedes the loop and survives a
  throw.
\<close>

definition switchStream :: "media_stream \<Rightarrow> world \<Rightarrow> world \<times> js_error option" where
  "switchStream newStream s =
     (case me s of
        None \<Rightarrow> (s, None)
      | Some r \<Rightarrow>
          (let p = peer_heap s r;
               s1 = setScreenSharingId (peer_id p) s
           in case switch_connections newStream (connections p) of
                (cs, logs, err) \<Rightarrow>
                  (s1\<lparr>peer_heap := (peer_heap s1)(r := p\<lparr>connections := cs\<rparr>),
                      console := console s1 @ logs\<rparr>, err)))"

text \<open>
  \<^verbatim>\<open>shareScreen\<close>, with the outcome of the capture request as an argument: \<open>Inl\<close> is a
  rejection of the promise (permission denied or cancelled), \<open>Inr\<close> the captured
  stream. Neither promise chain has a rejection handler, so a rejection and an
  exception thrown by \<^verbatim>\<open>switchStream\<close> both end as unhandled rejections.
  The call and the settling of its promise are taken as one step: the branch is chosen
  and \<^verbatim>\<open>me\<close> is read in the world of the call, and no other event is placed in between.
\<close>

definition shareScreen :: "js_error + media_stream \<Rightarrow> world \<Rightarrow> world" where
  "shareScreen capture s =
     (if screenSharingId s \<noteq> '''' then
        (case capture of
           Inl e \<Rightarrow> s\<lparr>unhandled := unhandled s @ [e]\<rparr>
         | Inr cam \<Rightarrow>
             (case switchStream cam s of
                (s', None) \<Rightarrow> s'
              | (s', Some e) \<Rightarrow> s'\<lparr>unhandled := unhandled s' @ [e]\<rparr>))
      else
        (case capture of
           Inl e \<Rightarrow> s\<lparr>unhandled := unhandled s @ [e]\<rparr>
         | Inr scr \<Rightarrow>
             (case switchStream scr s of
                (s', None) \<Rightarrow> s'\<lparr>screenStream := Some scr\<rparr>
              | (s', Some e) \<Rightarrow> s'\<lparr>unhandled := unhandled s' @ [e]\<rparr>)))"

subsection \<open>Effects\<close>

definition change_name_effect :: "world \<Rightarrow> world" where
  "change_name_effect s = ws_emit (EmitChangeName (userId s) (userName s) (roomId s)) s"

text \<open>
  The identity effect (lines 108 to 157). Its argument is the exception thrown
  synchronously by the expression inside \<^verbatim>\<open>try\<close>, if any; the promise returned by
  \<^verbatim>\<open>getUserMedia\<close> settles later, as \<open>camera_granted\<close> or \<open>camera_denied\<close>. The result
  is the new world and the cleanup closure, which captures \<^verbatim>\<open>me\<close> as it was in the
  render that ran the effect, before \<^verbatim>\<open>setMe(peer)\<close> took effect.
\<close>

definition identity_effect :: "js_error option \<Rightarrow> world \<Rightarrow> world \<times> identity_cleanup option" where
  "identity_effect thrown s =
     (if userId s = '''' then
        (s\<lparr>console := console s @ [ConsoleLog ''Waiting for userId...'']\<rparr>, None)
      else
        (let r = next_peer s;
             s1 = s\<lparr>peer_heap := (peer_heap s)(r := new_Peer (userId s)), next_peer := Suc r\<rparr>;
             s2 = s1\<lparr>console := console s1 @ [ConsoleLog ''peer'']\<rparr>;
             s3 = s2\<lparr>me := Some r\<rparr>;
             s4 = (case thrown of
                     None \<Rightarrow> s3
                   | Some e \<Rightarrow> s3\<lparr>console := console s3 @ [ConsoleError e]\<rparr>);
             s5 = ws_on ''room-created'' H_enterRoom s4;
             s6 = ws_on ''get-users'' H_getUsers s5;
             s7 = ws_on ''user-disconnected'' H_removePeer s6;
             s8 = ws_on ''user-started-sharing'' H_startedSharing s7;
             s9 = ws_on ''user-stopped-sharing'' H_stoppedSharing s8;
             s10 = ws_on ''name-changed'' H_nameChanged s9
         in (s10, Some (IdentityCleanup (me s)))))"

text \<open>The \<^verbatim>\<open>then\<close> callback \<^verbatim>\<open>(stream) => setStream(stream)\<close> of a granted request.\<close>

definition camera_granted :: "media_stream \<Rightarrow> world \<Rightarrow> world" where
  "camera_granted st s = s\<lparr>stream := Some st\<rparr>"

text \<open>
  A denied request rejects the promise. The chain \<^verbatim>\<open>getUserMedia(...).then(...)\<close> has no
  rejection handler and the surrounding \<^verbatim>\<open>try\<close> has already been left, so the rejection
  is unhandled: no statement of the provider runs.
\<close>

definition camera_denied :: "js_error \<Rightarrow> world \<Rightarrow> world" where
  "camera_denied e s = s\<lparr>unhandled := unhandled s @ [e]\<rparr>"

text \<open>\<^verbatim>\<open>me?.disconnect()\<close> on the captured handle.\<close>

definition disconnect :: "nat option \<Rightarrow> world \<Rightarrow> world" where
  "disconnect m s =
     (case m of
        None \<Rightarrow> s
      | Some r \<Rightarrow> s\<lparr>peer_heap := (peer_heap s)(r := (peer_heap s r)\<lparr>disconnected := True\<rparr>)\<rparr>)"

fun identity_cleanup_run :: "identity_cleanup \<Rightarrow> world \<Rightarrow> world" where
  "identity_cleanup_run (IdentityCleanup m) s =
     (let s1 = ws_off ''room-created'' s;
          s2 = ws_off ''get-users'' s1;
          s3 = ws_off ''user-disconnected'' s2;
          s4 = ws_off ''user-started-sharing'' s3;
          s5 = ws_off ''user-stopped-sharing'' s4;
          s6 = ws_off ''user-joined'' s5;
          s7 = ws_off ''name-changed'' s6
      in disconnect m s7)"

definition sharing_effect :: "world \<Rightarrow> world" where
  "sharing_effect s =
     (if screenSharingId s \<noteq> '''' then ws_emit (EmitStartSharing (screenSharingId s) (roomId s)) s
      else ws_emit EmitStopSharing s)"

text \<open>
  The media effect (lines 167 to 194). The result says whether a cleanup was
  returned: the two early returns give none.
\<close>

definition me_on_call :: "nat \<Rightarrow> call_handler \<Rightarrow> world \<Rightarrow> world" where
  "me_on_call r h s =
     s\<lparr>peer_heap := (peer_heap s)
         (r := (peer_heap s r)\<lparr>call_handlers := call_handlers (peer_heap s r) @ [h]\<rparr>)\<rparr>"

definition media_effect :: "world \<Rightarrow> world \<times> bool" where
  "media_effect s =
     (case me s of
        None \<Rightarrow> (s, False)
      | Some r \<Rightarrow>
          (case stream s of
             None \<Rightarrow> (s, False)
           | Some st \<Rightarrow>
               (let s1 = ws_on ''user-joined'' (H_userJoined r (stream_id st) (userName s)) s;
                    s2 = me_on_call r (CallHandler (stream_id st)) s1
                in (s2, True))))"

definition media_cleanup_run :: "world \<Rightarrow> world" where
  "media_cleanup_run s = ws_off ''user-joined'' s"

subsection \<open>Inbound calls and remote streams\<close>

text \<open>
  The listener of lines 182 to 189, run for an inbound call from \<open>caller\<close> whose
  metadata carry the name \<open>n\<close>: it records the name and answers with the captured
  stream.
\<close>

fun on_call :: "string \<Rightarrow> string \<Rightarrow> call_handler \<Rightarrow> world \<Rightarrow> world" where
  "on_call caller n (CallHandler sid) s =
     (dispatch (addPeerNameAction caller n) s)\<lparr>answers := answers s @ [(caller, sid)]\<rparr>"

definition incoming_call :: "nat \<Rightarrow> string \<Rightarrow> string \<Rightarrow> world \<Rightarrow> world" where
  "incoming_call r caller n s =
     (if r < next_peer s
      then foldl (\<lambda>w h. on_call caller n h w) s (call_handlers (peer_heap s r))
      else s)"

text \<open>
  The \<^verbatim>\<open>stream\<close> callback of a call that was placed or answered:
  \<^verbatim>\<open>dispatch(addPeerStreamAction(peerId, peerStream))\<close>.
\<close>

definition on_call_stream :: "string \<Rightarrow> nat \<Rightarrow> world \<Rightarrow> world" where
  "on_call_stream p remote s =
     (if p \<in> call_to ` set (calls s) \<or> p \<in> fst ` set (answers s)
      then dispatch (addPeerStreamAction p remote) s
      else s)"

text \<open>
  PeerJS maintains \<^verbatim>\<open>me.connections\<close> as media connections open and close; the provider
  only reads it.
\<close>

definition peer_connections :: "nat \<Rightarrow> (string \<times> media_connection list) list \<Rightarrow> world \<Rightarrow> world" where
  "peer_connections r cs s =
     (if r < next_peer s
      then s\<lparr>peer_heap := (peer_heap s)(r := (peer_heap s r)\<lparr>connections := cs\<rparr>)\<rparr>
      else s)"

subsection \<open>Camera and microphone toggles\<close>

text \<open>
  \<^verbatim>\<open>handleCameraToggle\<close> and \<^verbatim>\<open>handleAudioToggle\<close> are closures, created anew by every
  render. A closure reads \<^verbatim>\<open>stream\<close>, \<^verbatim>\<open>isCameraOn\<close> and \<^verbatim>\<open>isAudioOn\<close> as its own render
  saw them, whenever it is called; only the tracks are objects, read and written as
  they are at the time of the call. \<open>render\<close> holds what the closures capture, and
  \<open>render_of\<close> is the render of a world.
\<close>

record render =
  seen_stream :: "media_stream option"
  seen_isCameraOn :: bool
  seen_isAudioOn :: bool

definition render_of :: "world \<Rightarrow> render" where
  "render_of s =
     \<lparr>seen_stream = stream s, seen_isCameraOn = isCameraOn s, seen_isAudioOn = isAudioOn s\<rparr>"

text \<open>
  The tracks of the captured stream object at the time of the call. The object is
  identified by \<open>stream_id\<close>: while it is the stream of the state its tracks are
  those of the state. A stream that the state has replaced since is no longer part of
  the world; only the kinds of its tracks, which never change, matter then.
\<close>

definition tracks_now :: "media_stream \<Rightarrow> world \<Rightarrow> media_track list" where
  "tracks_now st s =
     (case stream s of
        None \<Rightarrow> tracks st
      | Some cur \<Rightarrow> if stream_id cur = stream_id st then tracks cur else tracks st)"

definition set_tracks :: "media_stream \<Rightarrow> media_track list \<Rightarrow> world \<Rightarrow> world" where
  "set_tracks st ts s =
     (case stream s of
        None \<Rightarrow> s
      | Some cur \<Rightarrow>
          if stream_id cur = stream_id st then s\<lparr>stream := Some (cur\<lparr>tracks := ts\<rparr>)\<rparr> else s)"

text \<open>
  \<^verbatim>\<open>tracks.forEach((track) => { track.enabled = !track.enabled; setIsCameraOn(!isCameraOn); })\<close>
  over the tracks of one kind. \<open>c\<close> is the flag as the render captured it, so every
  iteration sets the same value; the last argument is the flag of the state. The
  tracks of the other kind are left as they are.
\<close>

fun forEach_toggle :: "track_kind \<Rightarrow> bool \<Rightarrow> media_track list \<Rightarrow> bool \<Rightarrow> media_track list \<times> bool" where
  "forEach_toggle k c [] flag = ([], flag)"
| "forEach_toggle k c (t # ts) flag =
     (if kind t = k
      then (case forEach_toggle k c ts (\<not> c) of
              (ts', flag') \<Rightarrow> (t\<lparr>enabled := \<not> enabled t\<rparr> # ts', flag'))
      else (case forEach_toggle k c ts flag of
              (ts', flag') \<Rightarrow> (t # ts', flag')))"

text \<open>
  The handlers of the render \<open>r\<close>, called in the world \<open>s\<close>. The handler a user event
  reaches is the one of the current render, \<open>handleCameraToggle (render_of s) s\<close>.
\<close>

definition handleCameraToggle :: "render \<Rightarrow> world \<Rightarrow> world" where
  "handleCameraToggle r s =
     (case seen_stream r of
        None \<Rightarrow> s
      | Some st \<Rightarrow>
          (case forEach_toggle Video (seen_isCameraOn r) (tracks_now st s) (isCameraOn s) of
             (ts, flag) \<Rightarrow> (set_tracks st ts s)\<lparr>isCameraOn := flag\<rparr>))"

definition handleAudioToggle :: "render \<Rightarrow> world \<Rightarrow> world" where
  "handleAudioToggle r s =
     (case seen_stream r of
        None \<Rightarrow> s
      | Some st \<Rightarrow>
          (case forEach_toggle Audio (seen_isAudioOn r) (tracks_now st s) (isAudioOn s) of
             (ts, flag) \<Rightarrow> (set_tracks st ts s)\<lparr>isAudioOn := flag\<rparr>))"

section \<open>The chat provider\<close>

definition chatDispatch :: "chat_action \<Rightarrow> world \<Rightarrow> world" where
  "chatDispatch a s = s\<lparr>chat := chatReducer (chat s) a\<rparr>"

text \<open>\<^verbatim>\<open>sendMessage\<close>; the first argument is the value of \<^verbatim>\<open>new Date().getTime()\<close>.\<close>

definition sendMessage :: "int \<Rightarrow> string \<Rightarrow> string \<Rightarrow> string \<Rightarrow> world \<Rightarrow> world" where
  "sendMessage now message rid auth s =
     (let messageData = \<lparr>content = message, timestamp = now, author = auth\<rparr>;
          s1 = chatDispatch (addMessageAction messageData) s
      in ws_emit (EmitSendMessage rid messageData) s1)"

definition addMessage :: "IMessage \<Rightarrow> world \<Rightarrow> world" where
  "addMessage m s = chatDispatch (addMessageAction m) s"

section \<open>Runs of a session\<close>

text \<open>
  Everything that can happen to a mounted provider. React runs the cleanup of an
  effect before it runs the effect again, and on unmount; the cleanups it holds are the
  fields \<open>identity_teardown\<close> and \<open>media_teardown\<close> of the world. A toggle in a run
  is a user event, which reaches the handler of the current render.
\<close>

datatype action =
    SetUser string string
  | SetRoomId string
  | RunChangeNameEffect
  | RunIdentityEffect "js_error option"
  | CameraGranted media_stream
  | CameraDenied js_error
  | RunSharingEffect
  | RunMediaEffect
  | EndSession
  | Receive ws_event
  | IncomingCall nat string string
  | CallStream string nat
  | PeerConnections nat "(string \<times> media_connection list) list"
  | ShareScreen "js_error + media_stream"
  | CameraToggle
  | AudioToggle
  | SendMessage int string string string
  | AddMessage IMessage

definition run_identity_teardown :: "world \<Rightarrow> world" where
  "run_identity_teardown s =
     (case identity_teardown s of
        None \<Rightarrow> s
      | Some c \<Rightarrow> (identity_cleanup_run c s)\<lparr>identity_teardown := None\<rparr>)"

definition run_media_teardown :: "world \<Rightarrow> world" where
  "run_media_teardown s =
     (if media_teardown s then (media_cleanup_run s)\<lparr>media_teardown := False\<rparr> else s)"

definition rerun_identity_effect :: "js_error option \<Rightarrow> world \<Rightarrow> world" where
  "rerun_identity_effect thrown s =
     (case identity_effect thrown (run_identity_teardown s) of
        (s', c) \<Rightarrow> s'\<lparr>identity_teardown := c\<rparr>)"

definition rerun_media_effect :: "world \<Rightarrow> world" where
  "rerun_media_effect s =
     (case media_effect (run_media_teardown s) of
        (s', c) \<Rightarrow> s'\<lparr>media_teardown := c\<rparr>)"

definition end_session :: "world \<Rightarrow> world" where
  "end_session s = run_media_teardown (run_identity_teardown s)"

fun step :: "action \<Rightarrow> world \<Rightarrow> world" where
  "step (SetUser uid uname) s = s\<lparr>userId := uid, userName := uname\<rparr>"
| "step (SetRoomId r) s = s\<lparr>roomId := r\<rparr>"
| "step RunChangeNameEffect s = change_name_effect s"
| "step (RunIdentityEffect thrown) s = rerun_identity_effect thrown s"
| "step (CameraGranted st) s = camera_granted st s"
| "step (CameraDenied e) s = camera_denied e s"
| "step RunSharingEffect s = sharing_effect s"
| "step RunMediaEffect s = rerun_media_effect s"
| "step EndSession s = end_session s"
| "step (Receive e) s = ws_receive e s"
| "step (IncomingCall r caller n) s = incoming_call r caller n s"
| "step (CallStream p remote) s = on_call_stream p remote s"
| "step (PeerConnections r cs) s = peer_connections r cs s"
| "step (ShareScreen capture) s = shareScreen capture s"
| "step CameraToggle s = handleCameraToggle (render_of s) s"
| "step AudioToggle s = handleAudioToggle (render_of s) s"
| "step (SendMessage now message rid auth) s = sendMessage now message rid auth s"
| "step (AddMessage m) s = addMessage m s"

definition run :: "action list \<Rightarrow> world \<Rightarrow> world" where
  "run acts s = foldl (\<lambda>w a. step a w) s acts"

text \<open>The operations of the screen-share arbiter, as the socket delivers them.\<close>

datatype arbiter_op = RequestStart string | RequestStop

fun arbiter_apply :: "arbiter_op \<Rightarrow> world \<Rightarrow> world" where
  "arbiter_apply (RequestStart p) s = on_user_started_sharing p s"
| "arbiter_apply RequestStop s = on_user_stopped_sharing s"

definition arbiter_run :: "arbiter_op list \<Rightarrow> world \<Rightarrow> world" where
  "arbiter_run ops s = foldl (\<lambda>w op. arbiter_apply op w) s ops"

fun arbiter_target :: "arbiter_op \<Rightarrow> string" where
  "arbiter_target (RequestStart p) = p"
| "arbiter_target RequestStop = ''''"

section \<open>Auxiliary notions\<close>

text \<open>Flipping one track if it is of the given kind: the effect of one loop iteration.\<close>

definition toggle_kind :: "track_kind \<Rightarrow> media_track \<Rightarrow> media_track" where
  "toggle_kind k t = (if kind t = k then t\<lparr>enabled := \<not> enabled t\<rparr> else t)"

text \<open>
  The invariant behind the guard of the media effect: as long as the peer handle or the
  local stream is missing, no call has been placed and no \<^verbatim>\<open>user-joined\<close> listener is
  registered.
\<close>

definition call_inv :: "world \<Rightarrow> bool" where
  "call_inv s \<longleftrightarrow>
     (me s = None \<or> stream s = None \<longrightarrow> calls s = [] \<and> listeners_of ''user-joined'' s = [])"

text \<open>The fields the invariant reads.\<close>

definition calling_part ::
  "world \<Rightarrow> nat option \<times> media_stream option \<times> outbound_call list \<times> (string \<times> ws_handler) list" where
  "calling_part s = (me s, stream s, calls s, ws_listeners s)"

subsection \<open>Concrete sessions\<close>

text \<open>User \<^verbatim>\<open>u1\<close>, named Ann, mounts the provider and the identity effect runs.\<close>

definition session_u1 :: world where
  "session_u1 = run [RunIdentityEffect None] (initial_world ''u1'' ''Ann'')"

definition camera1 :: media_stream where
  "camera1 = \<lparr>stream_id = 1, tracks =
     [\<lparr>track_id = 10, kind = Audio, enabled = True\<rparr>,
      \<lparr>track_id = 11, kind = Video, enabled = True\<rparr>]\<rparr>"

definition screen2 :: media_stream where
  "screen2 = \<lparr>stream_id = 2, tracks = [\<lparr>track_id = 20, kind = Video, enabled = True\<rparr>]\<rparr>"

definition camera3 :: media_stream where
  "camera3 = \<lparr>stream_id = 3, tracks =
     [\<lparr>track_id = 30, kind = Audio, enabled = True\<rparr>,
      \<lparr>track_id = 31, kind = Video, enabled = True\<rparr>]\<rparr>"

text \<open>The camera is granted, too.\<close>

definition ready_u1 :: world where
  "ready_u1 = run [RunIdentityEffect None, CameraGranted camera1] (initial_world ''u1'' ''Ann'')"

text \<open>One media connection to \<^verbatim>\<open>p2\<close>, sending the two tracks of the camera.\<close>

definition conn_p2 :: "(string \<times> media_connection list) list" where
  "conn_p2 = [(''p2'', [\<lparr>senders =
       [\<lparr>sender_track = Some \<lparr>track_id = 10, kind = Audio, enabled = True\<rparr>, stopped = False\<rparr>,
        \<lparr>sender_track = Some \<lparr>track_id = 11, kind = Video, enabled = True\<rparr>, stopped = False\<rparr>]\<rparr>])]"

text \<open>
  Ann is connected to \<^verbatim>\<open>p2\<close> and has started to share her screen: the arbiter names her.
\<close>

definition sharing_u1 :: world where
  "sharing_u1 = run [RunIdentityEffect None, CameraGranted camera1, RunMediaEffect,
                     PeerConnections 0 conn_p2, ShareScreen (Inr screen2)]
                  (initial_world ''u1'' ''Ann'')"

text \<open>The roster snapshot of two peers, Ann and Bo.\<close>

definition roster12 :: peer_state where
  "roster12 = [''p1'' \<mapsto> \<lparr>displayName = Some ''Ann'', remoteStream = None\<rparr>,
               ''p2'' \<mapsto> \<lparr>displayName = Some ''Bo'', remoteStream = None\<rparr>]"

section \<open>Properties\<close>

lemmas world_defs =
  initial_world_def run_def rerun_identity_effect_def run_identity_teardown_def identity_effect_def
  ws_on_def ws_off_def ws_emit_def dispatch_def setScreenSharingId_def Let_def
  camera_granted_def camera_denied_def end_session_def run_media_teardown_def
  media_cleanup_run_def disconnect_def new_Peer_def rerun_media_effect_def media_effect_def
  me_on_call_def peer_connections_def

lemma session_u1_listeners:
  "ws_listeners session_u1 =
     [(''room-created'', H_enterRoom), (''get-users'', H_getUsers),
      (''user-disconnected'', H_removePeer), (''user-started-sharing'', H_startedSharing),
      (''user-stopped-sharing'', H_stoppedSharing), (''name-changed'', H_nameChanged)]"
  by (simp add: session_u1_def world_defs)

subsection \<open>The screen-share arbiter\<close>

lemma arbiter_run_snoc: "arbiter_run (ops @ [op]) s = arbiter_apply op (arbiter_run ops s)"
  by (simp add: arbiter_run_def)

lemma screenSharingId_arbiter_apply: "screenSharingId (arbiter_apply op s) = arbiter_target op"
  by (cases op)
     (simp_all add: on_user_started_sharing_def on_user_stopped_sharing_def setScreenSharingId_def)

lemma arbiter_over_socket:
  "screenSharingId (run [Receive (UserStartedSharing a), Receive (UserStartedSharing b),
                         Receive UserStoppedSharing] session_u1) = ''''
   \<and> screenSharingId (run [Receive (UserStartedSharing a)] session_u1) = a"
  by (simp add: run_def ws_receive_def listeners_of_def session_u1_listeners
        on_user_started_sharing_def on_user_stopped_sharing_def setScreenSharingId_def)

text \<open>
  C1: the \<^verbatim>\<open>user-started-sharing\<close> listener sets \<open>screenSharingId\<close> to the peer it is given,
  whatever the value was, and the \<^verbatim>\<open>user-stopped-sharing\<close> listener sets it to the empty
  string. Hence after any sequence of arbiter operations the value is the one of the last
  operation; start by \<open>a\<close>, start by \<open>b\<close>, stop leaves it empty, and a single start by
  \<open>a\<close> from the initial state leaves it equal to \<open>a\<close>. The same holds when the
  operations arrive as socket events at the listeners the identity effect installed.
\<close>

theorem arbiter_last_writer_wins:
  "screenSharingId (on_user_started_sharing p s) = p
   \<and> screenSharingId (on_user_stopped_sharing s) = ''''
   \<and> screenSharingId (arbiter_run (ops @ [op]) s) = arbiter_target op
   \<and> screenSharingId (arbiter_run [RequestStart a, RequestStart b, RequestStop] s) = ''''
   \<and> screenSharingId (arbiter_run [RequestStart a] (initial_world uid uname)) = a
   \<and> screenSharingId (run [Receive (UserStartedSharing a), Receive (UserStartedSharing b),
                           Receive UserStoppedSharing] session_u1) = ''''
   \<and> screenSharingId (run [Receive (UserStartedSharing a)] session_u1) = a"
  using arbiter_over_socket [of a b]
  by (simp add: arbiter_run_snoc screenSharingId_arbiter_apply
      on_user_started_sharing_def on_user_stopped_sharing_def setScreenSharingId_def arbiter_run_def)

subsection \<open>The local stop path of screen sharing\<close>

text \<open>
  Whenever a capture is granted and the peer handle exists, \<^verbatim>\<open>shareScreen\<close> ends with
  the local id in \<open>screenSharingId\<close>, on the start path and on the stop path alike.
\<close>

lemma shareScreen_granted_sets_local_id:
  assumes "me s = Some r"
  shows "screenSharingId (shareScreen (Inr st) s) = peer_id (peer_heap s r)"
proof -
  obtain cs logs err where
    sw: "switch_connections st (connections (peer_heap s r)) = (cs, logs, err)"
    by (cases "switch_connections st (connections (peer_heap s r))") auto
  show ?thesis
    by (cases err)
       (simp_all add: shareScreen_def switchStream_def assms Let_def sw setScreenSharingId_def)
qed

text \<open>
  C2: evaluation of \<^verbatim>\<open>shareScreen\<close> on the stop path. Ann (\<^verbatim>\<open>u1\<close>) is sharing, so
  \<open>screenSharingId\<close> is her own id; she invokes \<^verbatim>\<open>shareScreen\<close> again and the camera
  request is granted with \<open>camera3\<close>. The video sender of the connection to \<^verbatim>\<open>p2\<close> gets the
  video track of the fresh capture, but \<open>screenSharingId\<close> is not cleared:
  \<^verbatim>\<open>switchStream\<close> sets it to \<^verbatim>\<open>me.id\<close> on this path as on the start path.
\<close>

theorem shareScreen_stop_keeps_sharing_id:
  "me sharing_u1 = Some 0
   \<and> peer_id (peer_heap sharing_u1 0) = ''u1''
   \<and> screenSharingId sharing_u1 = ''u1''
   \<and> screenSharingId (shareScreen (Inr camera3) sharing_u1) = ''u1''
   \<and> connections (peer_heap (shareScreen (Inr camera3) sharing_u1) 0) =
       [(''p2'', [\<lparr>senders =
         [\<lparr>sender_track = Some \<lparr>track_id = 10, kind = Audio, enabled = True\<rparr>, stopped = False\<rparr>,
          \<lparr>sender_track = Some \<lparr>track_id = 31, kind = Video, enabled = True\<rparr>, stopped = False\<rparr>]\<rparr>])]"
  by (simp add: sharing_u1_def world_defs shareScreen_def switchStream_def camera1_def screen2_def
      camera3_def conn_p2_def getTracks_def)

subsection \<open>Disconnect of the sharer\<close>

lemma sharer_disconnect_over_socket:
  "peers (run [Receive (GetUsers roster12)] session_u1) ''p2'' =
      Some \<lparr>displayName = Some ''Bo'', remoteStream = None\<rparr>
   \<and> peers (run [Receive (GetUsers roster12), Receive (UserStartedSharing ''p2''),
                 Receive (UserDisconnected ''p2'')] session_u1) ''p2'' = None
   \<and> screenSharingId (run [Receive (GetUsers roster12), Receive (UserStartedSharing ''p2''),
                 Receive (UserDisconnected ''p2'')] session_u1) = ''p2''"
  by (simp add: run_def ws_receive_def listeners_of_def session_u1_listeners roster12_def
        on_user_started_sharing_def setScreenSharingId_def getUsers_def removePeer_def
        dispatch_def addAllPeersAction_def removePeerStreamAction_def)

text \<open>
  C3: after \<^verbatim>\<open>user-started-sharing(p2)\<close> followed by \<^verbatim>\<open>user-disconnected(p2)\<close> the
  registry has no entry for \<open>p2\<close> and \<open>screenSharingId\<close> still equals \<open>p2\<close>. This is
  shown for the two listeners run on any world and for the events arriving over the
  socket after the roster of Ann and Bo, where \<^verbatim>\<open>p2\<close> had an entry before.
\<close>

theorem sharer_disconnect_keeps_arbiter:
  "peers (removePeer p2 (on_user_started_sharing p2 s)) p2 = None
   \<and> screenSharingId (removePeer p2 (on_user_started_sharing p2 s)) = p2
   \<and> peers (run [Receive (GetUsers roster12)] session_u1) ''p2'' =
      Some \<lparr>displayName = Some ''Bo'', remoteStream = None\<rparr>
   \<and> peers (run [Receive (GetUsers roster12), Receive (UserStartedSharing ''p2''),
                 Receive (UserDisconnected ''p2'')] session_u1) ''p2'' = None
   \<and> screenSharingId (run [Receive (GetUsers roster12), Receive (UserStartedSharing ''p2''),
                 Receive (UserDisconnected ''p2'')] session_u1) = ''p2''"
  using sharer_disconnect_over_socket
  by (simp add: removePeer_def on_user_started_sharing_def setScreenSharingId_def dispatch_def
      removePeerStreamAction_def)

subsection \<open>Outbound calls need the peer handle and the local stream\<close>

lemma listeners_of_ws_on:
  "listeners_of name (ws_on name' h s) =
     (if name' = name then listeners_of name s @ [h] else listeners_of name s)"
  by (simp add: listeners_of_def ws_on_def)

lemma filter_name_off:
  "map snd (filter (\<lambda>l. fst l \<noteq> name' \<and> fst l = name) xs) =
     (if name' = name then [] else map snd (filter (\<lambda>l. fst l = name) xs))"
  by (induction xs) auto

lemma listeners_of_ws_off:
  "listeners_of name (ws_off name' s) = (if name' = name then [] else listeners_of name s)"
  by (simp add: listeners_of_def ws_off_def filter_name_off)

lemma ws_on_fields [simp]:
  "me (ws_on name h s) = me s" "stream (ws_on name h s) = stream s"
  "calls (ws_on name h s) = calls s" "peer_heap (ws_on name h s) = peer_heap s"
  "userName (ws_on name h s) = userName s"
  by (simp_all add: ws_on_def)

lemma ws_off_fields [simp]:
  "me (ws_off name s) = me s" "stream (ws_off name s) = stream s"
  "calls (ws_off name s) = calls s" "peer_heap (ws_off name s) = peer_heap s"
  "userName (ws_off name s) = userName s"
  by (simp_all add: ws_off_def)

lemma listeners_of_update [simp]:
  "listeners_of name (s\<lparr>me := m\<rparr>) = listeners_of name s"
  "listeners_of name (s\<lparr>stream := x\<rparr>) = listeners_of name s"
  "listeners_of name (s\<lparr>console := c\<rparr>) = listeners_of name s"
  "listeners_of name (s\<lparr>peer_heap := h\<rparr>) = listeners_of name s"
  "listeners_of name (s\<lparr>next_peer := np\<rparr>) = listeners_of name s"
  "listeners_of name (s\<lparr>identity_teardown := it\<rparr>) = listeners_of name s"
  "listeners_of name (s\<lparr>media_teardown := mt\<rparr>) = listeners_of name s"
  by (simp_all add: listeners_of_def)

lemma call_inv_calling_part:
  "calling_part s' = calling_part s \<Longrightarrow> call_inv s \<Longrightarrow> call_inv s'"
  by (simp add: calling_part_def call_inv_def listeners_of_def)

text \<open>No listener changes the handle, the stream or the listeners themselves.\<close>

lemma run_handler_frame:
  "me (run_handler h e s) = me s"
  "stream (run_handler h e s) = stream s"
  "ws_listeners (run_handler h e s) = ws_listeners s"
  by (induction h e s rule: run_handler.induct)
     (simp_all add: enterRoom_def getUsers_def removePeer_def on_user_started_sharing_def
        on_user_stopped_sharing_def nameChangedHandler_def on_user_joined_def dispatch_def
        setScreenSharingId_def)

text \<open>Only a \<^verbatim>\<open>user-joined\<close> event can place a call.\<close>

lemma run_handler_calls:
  "event_name e \<noteq> ''user-joined'' \<Longrightarrow> calls (run_handler h e s) = calls s"
  by (induction h e s rule: run_handler.induct)
     (simp_all add: enterRoom_def getUsers_def removePeer_def on_user_started_sharing_def
        on_user_stopped_sharing_def nameChangedHandler_def on_user_joined_def dispatch_def
        setScreenSharingId_def)

lemma foldl_run_handler_frame:
  "me (foldl (\<lambda>w h. run_handler h e w) s hs) = me s
   \<and> stream (foldl (\<lambda>w h. run_handler h e w) s hs) = stream s
   \<and> ws_listeners (foldl (\<lambda>w h. run_handler h e w) s hs) = ws_listeners s"
  by (induction hs arbitrary: s) (simp_all add: run_handler_frame)

lemma foldl_run_handler_calls:
  "event_name e \<noteq> ''user-joined'' \<Longrightarrow> calls (foldl (\<lambda>w h. run_handler h e w) s hs) = calls s"
  by (induction hs arbitrary: s) (simp_all add: run_handler_calls)

lemma ws_receive_frame:
  "me (ws_receive e s) = me s" "stream (ws_receive e s) = stream s"
  "ws_listeners (ws_receive e s) = ws_listeners s"
  by (simp_all add: ws_receive_def foldl_run_handler_frame)

lemma listeners_of_ws_receive: "listeners_of name (ws_receive e s) = listeners_of name s"
  by (simp add: listeners_of_def ws_receive_frame)

lemma ws_receive_no_listener:
  "listeners_of (event_name e) s = [] \<Longrightarrow> ws_receive e s = s"
  by (simp add: ws_receive_def)

lemma call_inv_ws_receive: "call_inv s \<Longrightarrow> call_inv (ws_receive e s)"
proof (cases "event_name e = ''user-joined''")
  case True
  assume inv: "call_inv s"
  show ?thesis
  proof (cases "me s = None \<or> stream s = None")
    case True
    with inv have "listeners_of ''user-joined'' s = []" by (simp add: call_inv_def)
    with \<open>event_name e = ''user-joined''\<close> have "ws_receive e s = s"
      by (simp add: ws_receive_no_listener)
    with inv show ?thesis by simp
  next
    case False
    then show ?thesis by (auto simp: call_inv_def ws_receive_frame)
  qed
next
  case False
  assume inv: "call_inv s"
  from False have "calls (ws_receive e s) = calls s"
    by (simp add: ws_receive_def foldl_run_handler_calls)
  with inv show ?thesis
    by (simp add: call_inv_def ws_receive_frame listeners_of_ws_receive)
qed

lemma disconnect_frame:
  "me (disconnect m s) = me s" "stream (disconnect m s) = stream s"
  "calls (disconnect m s) = calls s"
  "listeners_of name (disconnect m s) = listeners_of name s"
  by (simp_all add: disconnect_def split: option.splits)

lemma identity_cleanup_run_frame:
  "me (identity_cleanup_run c s) = me s \<and>
   stream (identity_cleanup_run c s) = stream s \<and>
   calls (identity_cleanup_run c s) = calls s \<and>
   listeners_of ''user-joined'' (identity_cleanup_run c s) = []"
  by (cases c) (simp add: disconnect_frame listeners_of_ws_off)

lemma run_identity_teardown_frame:
  "me (run_identity_teardown s) = me s"
  "stream (run_identity_teardown s) = stream s"
  "calls (run_identity_teardown s) = calls s"
  "listeners_of ''user-joined'' s = [] \<Longrightarrow>
     listeners_of ''user-joined'' (run_identity_teardown s) = []"
  by (simp_all add: run_identity_teardown_def identity_cleanup_run_frame split: option.splits)

text \<open>The identity effect installs no \<^verbatim>\<open>user-joined\<close> listener and never unsets the handle.\<close>

lemma identity_effect_frame:
  "stream (fst (identity_effect thrown s)) = stream s"
  "calls (fst (identity_effect thrown s)) = calls s"
  "listeners_of ''user-joined'' (fst (identity_effect thrown s)) = listeners_of ''user-joined'' s"
  "me s \<noteq> None \<Longrightarrow> me (fst (identity_effect thrown s)) \<noteq> None"
  by (simp_all add: identity_effect_def Let_def listeners_of_ws_on split: option.splits)

lemma call_inv_identity: "call_inv s \<Longrightarrow> call_inv (rerun_identity_effect thrown s)"
proof -
  assume inv: "call_inv s"
  obtain s' c where eff: "identity_effect thrown (run_identity_teardown s) = (s', c)"
    by (cases "identity_effect thrown (run_identity_teardown s)")
  have fr: "stream s' = stream s" "calls s' = calls s"
    "listeners_of ''user-joined'' s' = listeners_of ''user-joined'' (run_identity_teardown s)"
    "me s \<noteq> None \<Longrightarrow> me s' \<noteq> None"
    using identity_effect_frame [where thrown = thrown and s = "run_identity_teardown s"] eff
    by (simp_all add: run_identity_teardown_frame)
  show ?thesis
  proof (cases "me s = None \<or> stream s = None")
    case True
    with inv have "calls s = []" "listeners_of ''user-joined'' s = []"
      by (simp_all add: call_inv_def)
    then show ?thesis
      using fr by (simp add: call_inv_def rerun_identity_effect_def eff run_identity_teardown_frame)
  next
    case False
    then show ?thesis
      using fr by (auto simp: call_inv_def rerun_identity_effect_def eff)
  qed
qed

text \<open>The media effect installs the listener only behind its two guards.\<close>

lemma call_inv_media: "call_inv s \<Longrightarrow> call_inv (rerun_media_effect s)"
  by (auto simp: call_inv_def rerun_media_effect_def run_media_teardown_def media_effect_def
        media_cleanup_run_def me_on_call_def Let_def listeners_of_ws_on listeners_of_ws_off
        split: option.splits)

lemma call_inv_end_session: "call_inv s \<Longrightarrow> call_inv (end_session s)"
  by (auto simp: call_inv_def end_session_def run_media_teardown_def media_cleanup_run_def
        listeners_of_ws_off run_identity_teardown_frame)

lemma foldl_on_call_frame:
  "calling_part (foldl (\<lambda>w h. on_call c n h w) s hs) = calling_part s"
proof (induction hs arbitrary: s)
  case Nil
  then show ?case by simp
next
  case (Cons h hs)
  then show ?case by (cases h) (simp add: dispatch_def calling_part_def)
qed

lemma call_inv_incoming: "call_inv s \<Longrightarrow> call_inv (incoming_call r c n s)"
  by (simp add: incoming_call_def call_inv_calling_part [OF foldl_on_call_frame])

lemma switchStream_frame: "calling_part (fst (switchStream st s)) = calling_part s"
proof (cases "me s")
  case None
  then show ?thesis by (simp add: switchStream_def)
next
  case (Some r)
  obtain cs logs err where
    sw: "switch_connections st (connections (peer_heap s r)) = (cs, logs, err)"
    by (cases "switch_connections st (connections (peer_heap s r))") auto
  show ?thesis
    by (simp add: switchStream_def Some Let_def sw calling_part_def setScreenSharingId_def)
qed

lemma shareScreen_frame: "calling_part (shareScreen cap s) = calling_part s"
proof (cases cap)
  case (Inl e)
  then show ?thesis by (simp add: shareScreen_def calling_part_def)
next
  case (Inr st)
  obtain s' err where sw: "switchStream st s = (s', err)"
    by (cases "switchStream st s") auto
  with switchStream_frame [of st s] have "calling_part s' = calling_part s" by simp
  then show ?thesis
    by (cases err) (simp_all add: shareScreen_def Inr sw calling_part_def)
qed

lemma call_inv_shareScreen: "call_inv s \<Longrightarrow> call_inv (shareScreen cap s)"
  by (rule call_inv_calling_part [OF shareScreen_frame])

lemma set_tracks_frame:
  "me (set_tracks st ts s) = me s" "calls (set_tracks st ts s) = calls s"
  "ws_listeners (set_tracks st ts s) = ws_listeners s"
  "(stream (set_tracks st ts s) = None) = (stream s = None)"
  by (simp_all add: set_tracks_def split: option.splits)

lemma call_inv_set_tracks: "call_inv s \<Longrightarrow> call_inv (set_tracks st ts s)"
  by (simp add: call_inv_def listeners_of_def set_tracks_frame)

lemma call_inv_camera_toggle: "call_inv s \<Longrightarrow> call_inv (handleCameraToggle r s)"
proof (cases "seen_stream r")
  case None
  assume "call_inv s"
  with None show ?thesis by (simp add: handleCameraToggle_def)
next
  case (Some st)
  assume inv: "call_inv s"
  obtain ts flag where
    fe: "forEach_toggle Video (seen_isCameraOn r) (tracks_now st s) (isCameraOn s) = (ts, flag)"
    by (cases "forEach_toggle Video (seen_isCameraOn r) (tracks_now st s) (isCameraOn s)") auto
  from call_inv_set_tracks [OF inv, of st ts] show ?thesis
    by (simp add: handleCameraToggle_def Some fe call_inv_def listeners_of_def)
qed

lemma call_inv_audio_toggle: "call_inv s \<Longrightarrow> call_inv (handleAudioToggle r s)"
proof (cases "seen_stream r")
  case None
  assume "call_inv s"
  with None show ?thesis by (simp add: handleAudioToggle_def)
next
  case (Some st)
  assume inv: "call_inv s"
  obtain ts flag where
    fe: "forEach_toggle Audio (seen_isAudioOn r) (tracks_now st s) (isAudioOn s) = (ts, flag)"
    by (cases "forEach_toggle Audio (seen_isAudioOn r) (tracks_now st s) (isAudioOn s)") auto
  from call_inv_set_tracks [OF inv, of st ts] show ?thesis
    by (simp add: handleAudioToggle_def Some fe call_inv_def listeners_of_def)
qed

lemma call_inv_simple:
  "call_inv s \<Longrightarrow> call_inv (s\<lparr>userId := uid, userName := uname\<rparr>)"
  "call_inv s \<Longrightarrow> call_inv (s\<lparr>roomId := r\<rparr>)"
  "call_inv s \<Longrightarrow> call_inv (change_name_effect s)"
  "call_inv s \<Longrightarrow> call_inv (camera_granted st s)"
  "call_inv s \<Longrightarrow> call_inv (camera_denied e s)"
  "call_inv s \<Longrightarrow> call_inv (sharing_effect s)"
  "call_inv s \<Longrightarrow> call_inv (on_call_stream p remote s)"
  "call_inv s \<Longrightarrow> call_inv (peer_connections r' cs s)"
  "call_inv s \<Longrightarrow> call_inv (sendMessage now message rid auth s)"
  "call_inv s \<Longrightarrow> call_inv (addMessage m s)"
  by (simp_all add: call_inv_def listeners_of_def change_name_effect_def ws_emit_def
       camera_granted_def camera_denied_def sharing_effect_def on_call_stream_def dispatch_def
       peer_connections_def sendMessage_def addMessage_def chatDispatch_def Let_def)

lemma call_inv_step: "call_inv s \<Longrightarrow> call_inv (step a s)"
  by (cases a)
     (simp_all add: call_inv_simple call_inv_ws_receive call_inv_identity call_inv_media
        call_inv_end_session call_inv_incoming call_inv_shareScreen call_inv_camera_toggle
        call_inv_audio_toggle)

lemma call_inv_initial: "call_inv (initial_world uid uname)"
  by (simp add: call_inv_def initial_world_def listeners_of_def)

lemma call_inv_run: "call_inv s \<Longrightarrow> call_inv (run acts s)"
  unfolding run_def by (induction acts arbitrary: s) (simp_all add: call_inv_step)

text \<open>The guard is not vacuous: with handle and stream in place a join places the call.\<close>

lemma join_with_stream_ready:
  "calls (run [RunIdentityEffect None, CameraGranted camera1, RunMediaEffect,
               Receive (UserJoined ''p3'' ''Cy'')] (initial_world ''u1'' ''Ann'')) =
     [\<lparr>call_from = 0, call_to = ''p3'', call_stream = 1, call_metadata = ''Ann''\<rparr>]
   \<and> peers (run [RunIdentityEffect None, CameraGranted camera1, RunMediaEffect,
               Receive (UserJoined ''p3'' ''Cy'')] (initial_world ''u1'' ''Ann'')) ''p3'' =
     Some \<lparr>displayName = Some ''Cy'', remoteStream = None\<rparr>"
  by (simp add: world_defs ws_receive_def listeners_of_def camera1_def on_user_joined_def
        addPeerNameAction_def)

text \<open>A join that came too early is not replayed once the stream arrives.\<close>

lemma early_join_is_not_replayed:
  "calls (run [RunIdentityEffect None, RunMediaEffect, Receive (UserJoined ''p3'' ''Cy''),
               CameraGranted camera1, RunMediaEffect] (initial_world ''u1'' ''Ann'')) = []
   \<and> peers (run [RunIdentityEffect None, RunMediaEffect, Receive (UserJoined ''p3'' ''Cy''),
               CameraGranted camera1, RunMediaEffect] (initial_world ''u1'' ''Ann'')) ''p3'' = None"
  by (simp add: world_defs ws_receive_def listeners_of_def camera1_def on_user_joined_def
        addPeerNameAction_def)

text \<open>
  C4: in every world a session can reach from its initial state, as long as the peer
  handle or the local stream is missing no outbound call has been placed, and a
  \<^verbatim>\<open>user-joined\<close> event leaves the world exactly as it was: no call, no registry change,
  and nothing kept from which the join could be retried later.
\<close>

theorem user_joined_needs_identity_and_stream:
  assumes "me (run acts (initial_world uid uname)) = None
           \<or> stream (run acts (initial_world uid uname)) = None"
  shows "calls (run acts (initial_world uid uname)) = []
         \<and> ws_receive (UserJoined p n) (run acts (initial_world uid uname)) =
             run acts (initial_world uid uname)"
proof -
  have "call_inv (run acts (initial_world uid uname))"
    by (simp add: call_inv_run call_inv_initial)
  with assms have "calls (run acts (initial_world uid uname)) = []"
    and "listeners_of ''user-joined'' (run acts (initial_world uid uname)) = []"
    by (simp_all add: call_inv_def)
  then show ?thesis by (simp add: ws_receive_no_listener)
qed

theorem user_joined_needs_identity_and_stream_witness:
  "(me (run [RunIdentityEffect None, RunMediaEffect] (initial_world ''u1'' ''Ann'')) = None
    \<or> stream (run [RunIdentityEffect None, RunMediaEffect] (initial_world ''u1'' ''Ann'')) = None)
   \<and> calls (run [RunIdentityEffect None, RunMediaEffect] (initial_world ''u1'' ''Ann'')) = []
   \<and> ws_receive (UserJoined ''p3'' ''Cy'')
        (run [RunIdentityEffect None, RunMediaEffect] (initial_world ''u1'' ''Ann'')) =
      run [RunIdentityEffect None, RunMediaEffect] (initial_world ''u1'' ''Ann'')"
proof -
  have h: "me (run [RunIdentityEffect None, RunMediaEffect] (initial_world ''u1'' ''Ann'')) = None
    \<or> stream (run [RunIdentityEffect None, RunMediaEffect] (initial_world ''u1'' ''Ann'')) = None"
    by (simp add: world_defs)
  show ?thesis
    using h user_joined_needs_identity_and_stream [OF h, of "''p3''" "''Cy''"] by simp
qed

subsection \<open>End of the session\<close>

text \<open>
  The cleanup of the identity effect captures the handle of the render that created it,
  not the \<^verbatim>\<open>peer\<close> the effect constructs.
\<close>

lemma identity_effect_captures_old_handle:
  "userId s \<noteq> '''' \<Longrightarrow>
     snd (identity_effect thrown s) = Some (IdentityCleanup (me s))
     \<and> me (fst (identity_effect thrown s)) = Some (next_peer s)"
  by (simp add: identity_effect_def Let_def split: option.splits)

text \<open>
  C5: evaluation of the end of Ann's first session. The identity effect created the
  handle at address 0 with id \<^verbatim>\<open>u1\<close>; when the session ends every listener is detached,
  but \<^verbatim>\<open>disconnect()\<close> was not called on that handle: the cleanup holds \<^verbatim>\<open>me\<close> as it
  was when the effect ran, which is \<^verbatim>\<open>null\<close>.
\<close>

theorem end_session_leaves_peer_connected:
  "me session_u1 = Some 0
   \<and> peer_id (peer_heap session_u1 0) = ''u1''
   \<and> identity_teardown session_u1 = Some (IdentityCleanup None)
   \<and> ws_listeners (end_session session_u1) = []
   \<and> \<not> disconnected (peer_heap (end_session session_u1) 0)"
  by (simp add: session_u1_def world_defs)

subsection \<open>Camera and microphone toggles\<close>

text \<open>
  C6, as stated, fails: in the initial world there is no local stream, and neither toggle
  flips its flag.
\<close>

theorem toggle_without_stream_counterexample:
  "stream (initial_world ''u1'' ''Ann'') = None
   \<and> isCameraOn (handleCameraToggle (render_of (initial_world ''u1'' ''Ann''))
                   (initial_world ''u1'' ''Ann'')) \<noteq>
       (\<not> isCameraOn (initial_world ''u1'' ''Ann''))
   \<and> isAudioOn (handleAudioToggle (render_of (initial_world ''u1'' ''Ann''))
                  (initial_world ''u1'' ''Ann'')) \<noteq>
       (\<not> isAudioOn (initial_world ''u1'' ''Ann''))"
  by (simp add: initial_world_def handleCameraToggle_def handleAudioToggle_def render_of_def)

text \<open>
  C6, amended: when no local stream exists, \<^verbatim>\<open>handleCameraToggle\<close> and
  \<^verbatim>\<open>handleAudioToggle\<close> change nothing at all: no media track is modified and the flags
  \<open>isCameraOn\<close> and \<open>isAudioOn\<close> keep their values. The handlers of a render without
  local stream do nothing in whatever world \<open>s'\<close> they are called, in particular in the
  world \<open>s\<close> of that render itself.
\<close>

theorem toggle_without_stream_is_noop:
  "stream s = None \<Longrightarrow>
     handleCameraToggle (render_of s) s = s \<and> handleAudioToggle (render_of s) s = s
     \<and> handleCameraToggle (render_of s) s' = s' \<and> handleAudioToggle (render_of s) s' = s'"
  by (simp add: handleCameraToggle_def handleAudioToggle_def render_of_def)

theorem toggle_without_stream_is_noop_witness:
  "stream (initial_world ''u1'' ''Ann'') = None
   \<and> handleCameraToggle (render_of (initial_world ''u1'' ''Ann'')) (initial_world ''u1'' ''Ann'') =
       initial_world ''u1'' ''Ann''
   \<and> handleAudioToggle (render_of (initial_world ''u1'' ''Ann'')) (initial_world ''u1'' ''Ann'') =
       initial_world ''u1'' ''Ann''"
proof -
  have h: "stream (initial_world ''u1'' ''Ann'') = None"
    by (simp add: initial_world_def)
  show ?thesis
    using h toggle_without_stream_is_noop [OF h, of "initial_world ''u1'' ''Ann''"] by simp
qed

text \<open>
  The loop flips every track of the kind and sets the flag to the negation of the
  captured value if it runs at least once.
\<close>

lemma forEach_toggle_eq:
  "forEach_toggle k c ts flag =
     (map (toggle_kind k) ts, if \<exists>t \<in> set ts. kind t = k then \<not> c else flag)"
  by (induction ts arbitrary: flag) (auto simp: toggle_kind_def)

lemma toggle_kind_twice: "toggle_kind k (toggle_kind k t) = t"
  by (simp add: toggle_kind_def)

lemma kind_toggle_kind: "kind (toggle_kind k t) = kind t"
  by (simp add: toggle_kind_def)

text \<open>
  A handler whose render saw the stream object that the state still holds: the video
  tracks are flipped as they are now, the flag is computed from what the render saw.
\<close>

lemma handleCameraToggle_same_object:
  assumes "seen_stream r = Some st'" and "stream s = Some st" and "stream_id st = stream_id st'"
  shows "handleCameraToggle r s =
           s\<lparr>stream := Some (st\<lparr>tracks := map (toggle_kind Video) (tracks st)\<rparr>),
             isCameraOn := (if \<exists>t \<in> set (tracks st). kind t = Video
                            then \<not> seen_isCameraOn r else isCameraOn s)\<rparr>"
  using assms
  by (simp add: handleCameraToggle_def tracks_now_def set_tracks_def forEach_toggle_eq)

lemma camera_toggle_flips:
  "isCameraOn (handleCameraToggle (render_of (camera_granted camera1 s)) (camera_granted camera1 s)) =
     (\<not> isCameraOn s)
   \<and> stream (handleCameraToggle (render_of (camera_granted camera1 s)) (camera_granted camera1 s)) =
       Some \<lparr>stream_id = 1, tracks =
         [\<lparr>track_id = 10, kind = Audio, enabled = True\<rparr>,
          \<lparr>track_id = 11, kind = Video, enabled = False\<rparr>]\<rparr>"
  by (simp add: handleCameraToggle_def render_of_def tracks_now_def set_tracks_def
        camera_granted_def camera1_def)

text \<open>
  The second call of one and the same handler sets the flag to the value the first call
  has set already.
\<close>

lemma any_kind_map_toggle:
  "(\<exists>t \<in> set (map (toggle_kind k) ts). kind t = k') = (\<exists>t \<in> set ts. kind t = k')"
  by (induction ts) (simp_all add: kind_toggle_kind)

lemma same_handler_sets_flag_once:
  "isCameraOn (handleCameraToggle r (handleCameraToggle r s)) = isCameraOn (handleCameraToggle r s)"
proof (cases "seen_stream r")
  case None
  then show ?thesis by (simp add: handleCameraToggle_def)
next
  case (Some st)
  let ?ts = "map (toggle_kind Video) (tracks_now st s)"
  have first: "handleCameraToggle r s =
      (set_tracks st ?ts s)\<lparr>isCameraOn :=
         (if \<exists>t \<in> set (tracks_now st s). kind t = Video
          then \<not> seen_isCameraOn r else isCameraOn s)\<rparr>"
    by (simp add: handleCameraToggle_def Some forEach_toggle_eq)
  have now: "tracks_now st ((set_tracks st ?ts s)\<lparr>isCameraOn := b\<rparr>) = ?ts
             \<or> tracks_now st ((set_tracks st ?ts s)\<lparr>isCameraOn := b\<rparr>) = tracks_now st s" for b
    by (simp add: tracks_now_def set_tracks_def split: option.splits)
  then have same_kinds:
    "(\<exists>t \<in> set (tracks_now st ((set_tracks st ?ts s)\<lparr>isCameraOn := b\<rparr>)). kind t = Video) =
     (\<exists>t \<in> set (tracks_now st s). kind t = Video)" for b
    using any_kind_map_toggle [of Video "tracks_now st s" Video] by (metis (no_types, lifting))
  show ?thesis
    unfolding first
    by (simp add: handleCameraToggle_def Some forEach_toggle_eq same_kinds)
qed

text \<open>
  C7, as stated, fails: Ann has her camera stream and \<open>isCameraOn\<close> is true. The handler
  of that render, applied twice, flips the video track back but leaves \<open>isCameraOn\<close>
  false, since both calls set the negation of the value the render saw.
\<close>

theorem camera_toggle_same_handler_counterexample:
  "stream ready_u1 = Some camera1
   \<and> isCameraOn ready_u1
   \<and> stream (handleCameraToggle (render_of ready_u1)
               (handleCameraToggle (render_of ready_u1) ready_u1)) = Some camera1
   \<and> \<not> isCameraOn (handleCameraToggle (render_of ready_u1)
                     (handleCameraToggle (render_of ready_u1) ready_u1))"
  by (simp add: ready_u1_def world_defs handleCameraToggle_def render_of_def tracks_now_def
        set_tracks_def camera1_def)

text \<open>
  C7, amended: for every local stream state, applying \<^verbatim>\<open>handleCameraToggle\<close> twice in
  succession restores the enabled flag of every video track of the local stream; it
  restores the flag \<open>isCameraOn\<close>, and with it the whole world, when the second
  application is the handler of the render that follows the first.
\<close>

theorem camera_toggle_twice_fresh_restores:
  "handleCameraToggle (render_of (handleCameraToggle (render_of s) s))
     (handleCameraToggle (render_of s) s) = s
   \<and> stream (handleCameraToggle (render_of s) (handleCameraToggle (render_of s) s)) = stream s"
proof (cases "stream s")
  case None
  then show ?thesis by (simp add: handleCameraToggle_def render_of_def)
next
  case (Some st)
  define s1 where "s1 = handleCameraToggle (render_of s) s"
  define st1 where "st1 = st\<lparr>tracks := map (toggle_kind Video) (tracks st)\<rparr>"
  have seen: "seen_stream (render_of s) = Some st" "seen_isCameraOn (render_of s) = isCameraOn s"
    by (simp_all add: render_of_def Some)
  have s1: "s1 = s\<lparr>stream := Some st1,
                    isCameraOn := (if \<exists>t \<in> set (tracks st). kind t = Video
                                   then \<not> isCameraOn s else isCameraOn s)\<rparr>"
    unfolding s1_def st1_def
    using handleCameraToggle_same_object [OF seen(1) Some] seen(2) by simp
  have st1: "stream s1 = Some st1" by (simp add: s1)
  have id1: "stream_id st1 = stream_id st" by (simp add: st1_def)
  have seen1: "seen_stream (render_of s1) = Some st1"
    "seen_isCameraOn (render_of s1) = isCameraOn s1"
    by (simp_all add: render_of_def st1)
  have undo: "st1\<lparr>tracks := map (toggle_kind Video) (tracks st1)\<rparr> = st"
    by (simp add: st1_def comp_def toggle_kind_twice)
  have kinds: "(\<exists>t \<in> set (tracks st1). kind t = Video) = (\<exists>t \<in> set (tracks st). kind t = Video)"
    by (simp add: st1_def any_kind_map_toggle del: set_map)
  have "handleCameraToggle (render_of s1) s1 =
          s1\<lparr>stream := Some st,
             isCameraOn := (if \<exists>t \<in> set (tracks st). kind t = Video
                            then \<not> isCameraOn s1 else isCameraOn s1)\<rparr>"
    using handleCameraToggle_same_object [OF seen1(1) st1] seen1(2) by (simp add: undo kinds)
  also have "\<dots> = s"
    by (simp add: s1 Some [symmetric])
  finally have fresh: "handleCameraToggle (render_of s1) s1 = s" .
  have "stream (handleCameraToggle (render_of s) s1) = Some st"
    using handleCameraToggle_same_object [OF seen(1) st1 id1] by (simp add: undo)
  then have same: "stream (handleCameraToggle (render_of s) s1) = stream s"
    by (simp add: Some)
  from fresh same show ?thesis by (simp add: s1_def)
qed

subsection \<open>Denied camera permission\<close>

text \<open>
  C8: evaluation of a denied permission request in Ann's session. The promise returned
  by \<^verbatim>\<open>getUserMedia\<close> rejects with \<^verbatim>\<open>NotAllowedError\<close> after the \<^verbatim>\<open>try\<close> block has been
  left. The local stream stays absent and the listeners stay installed, but the console
  holds only the \<^verbatim>\<open>console.log("peer", peer)\<close> entry: \<^verbatim>\<open>console.error\<close> has not run, and
  the rejection is unhandled.
\<close>

theorem camera_denied_is_unhandled:
  "stream (run [RunIdentityEffect None, CameraDenied NotAllowedError]
             (initial_world ''u1'' ''Ann'')) = None
   \<and> console (run [RunIdentityEffect None, CameraDenied NotAllowedError]
             (initial_world ''u1'' ''Ann'')) = [ConsoleLog ''peer'']
   \<and> unhandled (run [RunIdentityEffect None, CameraDenied NotAllowedError]
             (initial_world ''u1'' ''Ann'')) = [NotAllowedError]
   \<and> ws_listeners (run [RunIdentityEffect None, CameraDenied NotAllowedError]
             (initial_world ''u1'' ''Ann'')) = ws_listeners session_u1"
  by (simp add: session_u1_def world_defs)

text \<open>Only an exception thrown synchronously inside \<^verbatim>\<open>try\<close> reaches \<^verbatim>\<open>console.error\<close>.\<close>

lemma synchronous_throw_is_logged:
  "console (run [RunIdentityEffect (Some TypeError)] (initial_world ''u1'' ''Ann'')) =
     [ConsoleLog ''peer'', ConsoleError TypeError]
   \<and> unhandled (run [RunIdentityEffect (Some TypeError)] (initial_world ''u1'' ''Ann'')) = []"
  by (simp add: world_defs)

subsection \<open>Chat\<close>

text \<open>
  C9: \<^verbatim>\<open>sendMessage(content, roomId, author)\<close> at time \<open>now\<close> appends the record
  \<^verbatim>\<open>{content, author, timestamp: now}\<close> to the end of the message sequence and emits one
  \<^verbatim>\<open>send-message\<close> event carrying the room id and that same record.
\<close>

theorem sendMessage_appends_and_emits:
  "messages (chat (sendMessage now c rid a s)) =
     messages (chat s) @ [\<lparr>content = c, timestamp = now, author = a\<rparr>]
   \<and> ws_emitted (sendMessage now c rid a s) =
     ws_emitted s @ [EmitSendMessage rid \<lparr>content = c, timestamp = now, author = a\<rparr>]"
  by (simp add: sendMessage_def chatDispatch_def addMessageAction_def ws_emit_def Let_def)

subsection \<open>Inbound-call listeners pile up\<close>

lemma rerun_media_effect_ready:
  assumes "me s = Some r" and "stream s = Some st"
  shows "me (rerun_media_effect s) = Some r"
    and "stream (rerun_media_effect s) = Some st"
    and "call_handlers (peer_heap (rerun_media_effect s) r) =
           call_handlers (peer_heap s r) @ [CallHandler (stream_id st)]"
    and "userName (rerun_media_effect s) = userName s"
    and "media_teardown (rerun_media_effect s)"
    and "media_teardown s \<Longrightarrow> listeners_of ''user-joined'' (rerun_media_effect s) =
           [H_userJoined r (stream_id st) (userName s)]"
  using assms
  by (simp_all add: rerun_media_effect_def run_media_teardown_def media_effect_def
        media_cleanup_run_def me_on_call_def Let_def listeners_of_ws_on listeners_of_ws_off)

lemma rerun_media_effect_funpow:
  assumes "me s = Some r" and "stream s = Some st"
  shows "me ((rerun_media_effect ^^ n) s) = Some r
         \<and> stream ((rerun_media_effect ^^ n) s) = Some st
         \<and> userName ((rerun_media_effect ^^ n) s) = userName s
         \<and> call_handlers (peer_heap ((rerun_media_effect ^^ n) s) r) =
             call_handlers (peer_heap s r) @ replicate n (CallHandler (stream_id st))"
proof (induction n)
  case 0
  from assms show ?case by simp
next
  case (Suc n)
  then show ?case
    by (simp add: rerun_media_effect_ready replicate_append_same)
qed

text \<open>
  C10: the cleanup of the media effect removes the \<^verbatim>\<open>user-joined\<close> listeners from the
  socket and changes nothing else; the listeners attached with \<^verbatim>\<open>me.on("call", ...)\<close>
  stay. With handle and stream in place, every execution of the effect therefore
  appends one more inbound-call listener to those already on the handle, so after \<open>n\<close>
  executions there are \<open>n\<close> more, while the socket holds a single \<^verbatim>\<open>user-joined\<close>
  listener.
\<close>

theorem media_cleanup_keeps_call_handlers:
  assumes "me s = Some r" and "stream s = Some st"
  shows "media_cleanup_run s =
           s\<lparr>ws_listeners := filter (\<lambda>l. fst l \<noteq> ''user-joined'') (ws_listeners s)\<rparr>
         \<and> call_handlers (peer_heap (media_cleanup_run s) r) = call_handlers (peer_heap s r)
         \<and> call_handlers (peer_heap (rerun_media_effect s) r) =
             call_handlers (peer_heap s r) @ [CallHandler (stream_id st)]
         \<and> call_handlers (peer_heap ((rerun_media_effect ^^ n) s) r) =
             call_handlers (peer_heap s r) @ replicate n (CallHandler (stream_id st))
         \<and> listeners_of ''user-joined'' ((rerun_media_effect ^^ (n + 2)) s) =
             [H_userJoined r (stream_id st) (userName s)]"
proof -
  have a: "media_cleanup_run s =
           s\<lparr>ws_listeners := filter (\<lambda>l. fst l \<noteq> ''user-joined'') (ws_listeners s)\<rparr>"
    by (simp add: media_cleanup_run_def ws_off_def)
  have b: "call_handlers (peer_heap (media_cleanup_run s) r) = call_handlers (peer_heap s r)"
    by (simp add: media_cleanup_run_def)
  note c = rerun_media_effect_ready(3) [OF assms]
  note d = rerun_media_effect_funpow [OF assms, of n]
  let ?t = "(rerun_media_effect ^^ Suc n) s"
  from rerun_media_effect_funpow [OF assms, of n]
  have n: "me ((rerun_media_effect ^^ n) s) = Some r"
    "stream ((rerun_media_effect ^^ n) s) = Some st"
    by simp_all
  from rerun_media_effect_funpow [OF assms, of "Suc n"]
  have t: "me ?t = Some r" "stream ?t = Some st" "userName ?t = userName s"
    by simp_all
  have "media_teardown ?t"
    using rerun_media_effect_ready(5) [OF n] by simp
  from rerun_media_effect_ready(6) [OF t(1) t(2) this] t(3)
  have e: "listeners_of ''user-joined'' ((rerun_media_effect ^^ (n + 2)) s) =
             [H_userJoined r (stream_id st) (userName s)]"
    by simp
  from a b c d e show ?thesis by simp
qed

theorem media_cleanup_keeps_call_handlers_witness:
  "me ready_u1 = Some 0 \<and> stream ready_u1 = Some camera1
   \<and> call_handlers (peer_heap ready_u1 0) = []
   \<and> call_handlers (peer_heap (media_cleanup_run (rerun_media_effect ready_u1)) 0) = [CallHandler 1]
   \<and> call_handlers (peer_heap ((rerun_media_effect ^^ 3) ready_u1) 0) =
       [CallHandler 1, CallHandler 1, CallHandler 1]
   \<and> listeners_of ''user-joined'' ((rerun_media_effect ^^ 3) ready_u1) = [H_userJoined 0 1 ''Ann'']"
proof -
  have h1: "me ready_u1 = Some 0" and h2: "stream ready_u1 = Some camera1"
    and h3: "call_handlers (peer_heap ready_u1 0) = []" and h4: "userName ready_u1 = ''Ann''"
    by (simp_all add: ready_u1_def world_defs)
  have h5: "call_handlers (peer_heap (media_cleanup_run (rerun_media_effect ready_u1)) 0) =
              [CallHandler 1]"
    by (simp add: ready_u1_def world_defs camera1_def)
  have sid: "stream_id camera1 = 1" by (simp add: camera1_def)
  show ?thesis
    using media_cleanup_keeps_call_handlers [OF h1 h2, of 3]
      media_cleanup_keeps_call_handlers [OF h1 h2, of 1] h1 h2 h3 h4 h5 sid
    by (simp add: numeral_3_eq_3)
qed

end
